theory Spec2Isabelle
  imports Complex_Main "HOL-Library.Word" "HOL-Library.Sublist"
begin

section \<open>MovieVault: the state container of \<open>src/App.tsx\<close>\<close>

text \<open>
  The application is one React component, \<open>App\<close>. Its seven \<open>useState\<close> cells
  are the record \<open>app_state\<close>; everything the component touches outside of them (the
  \<open>movieVaultBookmarks\<close> slot of \<open>localStorage\<close>, the requests handed to
  \<open>fetch\<close>, the toasts and the console) is the record \<open>world\<close>. Every handler of
  the component is a function from worlds to worlds that performs the handler's
  statements in the order of the source.
\<close>

subsection \<open>Strings and values\<close>

text \<open>
  Text that comes from the user or from the remote catalogue is a JavaScript string: a
  sequence of UTF-16 code units. The string literals of the program itself (messages) and
  the JSON text of the storage slot are ASCII and are written as HOL strings.
\<close>

type_synonym code_unit = "16 word"
type_synonym js_string = "code_unit list"

text \<open>
  \<open>interface Movie\<close>. The identifier is an integer of the catalogue; the rating is a
  double that no handler inspects (it is only printed by the view).
\<close>

record movie =
  movie_id :: int
  title :: js_string
  poster_path :: js_string
  vote_average :: real
  overview :: js_string
  release_date :: js_string

text \<open>The \<open>useState\<close> cells of \<open>App\<close>, in the order of their declaration.\<close>

record app_state =
  movies :: "movie list"
  loading :: bool
  searchQuery :: js_string
  bookmarks :: "int list"
  selectedMovie :: "movie option"
  error :: "string option"
  showBookmarksOnly :: bool

text \<open>The initial values given to \<open>useState\<close>.\<close>

definition initial_state :: app_state where
  "initial_state =
     \<lparr>movies = [], loading = True, searchQuery = [], bookmarks = [],
      selectedMovie = None, error = None, showBookmarksOnly = False\<rparr>"

subsection \<open>Array methods\<close>

text \<open>
  \<open>Array.prototype.includes\<close> walks the array from index 0 and answers at the first
  element equal to the argument; \<open>Array.prototype.filter\<close> walks the array from
  index 0 and appends every element the callback accepts to a new array.
\<close>

fun includes_arr :: "'a list \<Rightarrow> 'a \<Rightarrow> bool" where
  "includes_arr [] v = False"
| "includes_arr (x # xs) v = (if x = v then True else includes_arr xs v)"

fun filter_array :: "('a \<Rightarrow> bool) \<Rightarrow> 'a list \<Rightarrow> 'a list \<Rightarrow> 'a list" where
  "filter_array cb [] kept = kept"
| "filter_array cb (x # xs) kept =
     (if cb x then filter_array cb xs (kept @ [x]) else filter_array cb xs kept)"

definition filter_arr :: "'a list \<Rightarrow> ('a \<Rightarrow> bool) \<Rightarrow> 'a list" where
  "filter_arr xs cb = filter_array cb xs []"

subsection \<open>The display filter\<close>

text \<open>
  \<^verbatim>\<open>
  const displayedMovies = showBookmarksOnly
    ? movies.filter((movie) => bookmarks.includes(movie.id))
    : movies;
  \<close>
\<close>

definition displayedMovies :: "app_state \<Rightarrow> movie list" where
  "displayedMovies s =
     (if showBookmarksOnly s
      then filter_arr (movies s) (\<lambda>movie. includes_arr (bookmarks s) (movie_id movie))
      else movies s)"

subsection \<open>\<open>JSON.stringify\<close> and \<open>JSON.parse\<close> on arrays of identifiers\<close>

text \<open>
  The storage slot holds the text \<open>JSON.stringify\<close> writes for a \<open>number[]\<close> of
  integers: \<open>[\<close>, the decimal numerals separated by commas, \<open>]\<close>. A numeral is
  what \<open>Number.prototype.toString\<close> prints for an integer: the digits, most
  significant first, after a minus sign for a negative number.
\<close>

definition digit_char :: "nat \<Rightarrow> char" where
  "digit_char d = char_of (48 + d)"

definition digit_of :: "char \<Rightarrow> nat option" where
  "digit_of c =
     (let n = (of_char c :: nat) in if 48 \<le> n \<and> n \<le> 57 then Some (n - 48) else None)"

fun nat_digits :: "nat \<Rightarrow> string" where
  "nat_digits n =
     (if n < 10 then [digit_char n] else nat_digits (n div 10) @ [digit_char (n mod 10)])"

declare nat_digits.simps [simp del]

definition number_toString :: "int \<Rightarrow> string" where
  "number_toString i =
     (if i < 0 then CHR ''-'' # nat_digits (nat (- i)) else nat_digits (nat i))"

fun join_comma :: "string list \<Rightarrow> string" where
  "join_comma [] = []"
| "join_comma [p] = p"
| "join_comma (p # q # ps) = p @ CHR '','' # join_comma (q # ps)"

definition JSON_stringify :: "int list \<Rightarrow> string" where
  "JSON_stringify xs = CHR ''['' # join_comma (map number_toString xs) @ [CHR '']'']"

text \<open>
  \<open>JSON.parse\<close>, on the same fragment of JSON: an array of integer numerals with no
  white space. A numeral has at least one digit and no leading zero. \<open>None\<close> stands
  for every other text: one on which \<open>JSON.parse\<close> throws \<open>SyntaxError\<close>, or one
  whose value is not an array of integers (which the type \<open>number[]\<close> of the
  \<open>bookmarks\<close> cell excludes), or one written in a notation the application never
  writes (white space, fractions, exponents).
\<close>

fun digits_value :: "nat \<Rightarrow> string \<Rightarrow> nat option" where
  "digits_value acc [] = Some acc"
| "digits_value acc (c # cs) =
     (case digit_of c of None \<Rightarrow> None | Some d \<Rightarrow> digits_value (10 * acc + d) cs)"

definition parse_nat :: "string \<Rightarrow> nat option" where
  "parse_nat s =
     (if s = [] then None
      else if hd s = CHR ''0'' \<and> tl s \<noteq> [] then None
      else digits_value 0 s)"

definition parse_number :: "string \<Rightarrow> int option" where
  "parse_number s =
     (if s \<noteq> [] \<and> hd s = CHR ''-''
      then map_option (\<lambda>n. - int n) (parse_nat (tl s))
      else map_option int (parse_nat s))"

fun split_comma :: "string \<Rightarrow> string list" where
  "split_comma [] = [[]]"
| "split_comma (c # cs) =
     (if c = CHR '','' then [] # split_comma cs
      else (case split_comma cs of [] \<Rightarrow> [[c]] | p # ps \<Rightarrow> (c # p) # ps))"

fun parse_elements :: "string list \<Rightarrow> int list option" where
  "parse_elements [] = Some []"
| "parse_elements (p # ps) =
     (case parse_number p of
        None \<Rightarrow> None
      | Some i \<Rightarrow> (case parse_elements ps of None \<Rightarrow> None | Some is \<Rightarrow> Some (i # is)))"

definition JSON_parse :: "string \<Rightarrow> int list option" where
  "JSON_parse s =
     (if length s < 2 \<or> hd s \<noteq> CHR ''['' \<or> last s \<noteq> CHR '']'' then None
      else let body = butlast (tl s)
           in if body = [] then Some [] else parse_elements (split_comma body))"

subsection \<open>\<open>String.prototype.trim\<close>\<close>

text \<open>
  \<open>trim\<close> removes the white space and the line terminators of ECMAScript from both
  ends of a string: U+0009 to U+000D, U+0020, U+00A0, U+1680, U+2000 to U+200A, U+2028,
  U+2029, U+202F, U+205F, U+3000 and U+FEFF.
\<close>

definition is_white_space :: "code_unit \<Rightarrow> bool" where
  "is_white_space c \<longleftrightarrow>
     (0x0009 \<le> c \<and> c \<le> 0x000D) \<or> c = 0x0020 \<or> c = 0x00A0 \<or> c = 0x1680 \<or>
     (0x2000 \<le> c \<and> c \<le> 0x200A) \<or> c = 0x2028 \<or> c = 0x2029 \<or> c = 0x202F \<or>
     c = 0x205F \<or> c = 0x3000 \<or> c = 0xFEFF"

definition trim :: "js_string \<Rightarrow> js_string" where
  "trim s = rev (dropWhile is_white_space (rev (dropWhile is_white_space s)))"

text \<open>
  What JavaScript takes for false among the values the program tests with \<open>!\<close> or
  \<open>if\<close>: \<open>undefined\<close>, \<open>null\<close> and the empty string.
\<close>

definition falsy :: "'a list option \<Rightarrow> bool" where
  "falsy v = (case v of None \<Rightarrow> True | Some s \<Rightarrow> s = [])"

subsection \<open>The world around the component\<close>

text \<open>
  A request handed to \<open>fetch\<close>: the trending list of the week, or a search by
  query, each with the access key in its URL.
\<close>

datatype request =
  TrendingRequest js_string
| SearchRequest js_string js_string

text \<open>
  How a request settles. \<open>Rejected\<close>: \<open>fetch\<close> rejects (transport failure).
  \<open>NotOk status\<close>: \<open>response.ok\<close> is false. \<open>NoJson\<close>:
  \<open>response.json()\<close> rejects, or reading \<open>data.results\<close> throws.
  \<open>Body None\<close>: \<open>data.results\<close> is missing or falsy. \<open>Body (Some ms)\<close>:
  \<open>data.results\<close> is the array \<open>ms\<close>, possibly empty (an empty array is truthy).
\<close>

datatype response =
  Rejected
| NotOk nat
| NoJson
| Body "movie list option"

datatype toast =
  ToastSuccess string
| ToastError string

type_synonym api_key = "js_string option"

record world =
  ui :: app_state
  localStorage :: "string option"
  requests :: "request list"
  toasts :: "toast list"
  console :: "string list"

text \<open>The state setters returned by \<open>useState\<close>.\<close>

definition setMovies :: "movie list \<Rightarrow> world \<Rightarrow> world" where
  "setMovies v w = w\<lparr>ui := (ui w)\<lparr>movies := v\<rparr>\<rparr>"

definition setLoading :: "bool \<Rightarrow> world \<Rightarrow> world" where
  "setLoading v w = w\<lparr>ui := (ui w)\<lparr>loading := v\<rparr>\<rparr>"

definition setSearchQuery :: "js_string \<Rightarrow> world \<Rightarrow> world" where
  "setSearchQuery v w = w\<lparr>ui := (ui w)\<lparr>searchQuery := v\<rparr>\<rparr>"

definition setBookmarks :: "int list \<Rightarrow> world \<Rightarrow> world" where
  "setBookmarks v w = w\<lparr>ui := (ui w)\<lparr>bookmarks := v\<rparr>\<rparr>"

definition setSelectedMovie :: "movie option \<Rightarrow> world \<Rightarrow> world" where
  "setSelectedMovie v w = w\<lparr>ui := (ui w)\<lparr>selectedMovie := v\<rparr>\<rparr>"

definition setError :: "string option \<Rightarrow> world \<Rightarrow> world" where
  "setError v w = w\<lparr>ui := (ui w)\<lparr>error := v\<rparr>\<rparr>"

definition setShowBookmarksOnly :: "bool \<Rightarrow> world \<Rightarrow> world" where
  "setShowBookmarksOnly v w = w\<lparr>ui := (ui w)\<lparr>showBookmarksOnly := v\<rparr>\<rparr>"

text \<open>The effects outside the component, each appended to its log.\<close>

definition fetch :: "request \<Rightarrow> world \<Rightarrow> world" where
  "fetch r w = w\<lparr>requests := requests w @ [r]\<rparr>"

definition toast_success :: "string \<Rightarrow> world \<Rightarrow> world" where
  "toast_success m w = w\<lparr>toasts := toasts w @ [ToastSuccess m]\<rparr>"

definition toast_error :: "string \<Rightarrow> world \<Rightarrow> world" where
  "toast_error m w = w\<lparr>toasts := toasts w @ [ToastError m]\<rparr>"

definition console_error :: "string \<Rightarrow> world \<Rightarrow> world" where
  "console_error m w = w\<lparr>console := console w @ [m]\<rparr>"

definition localStorage_setItem :: "string \<Rightarrow> world \<Rightarrow> world" where
  "localStorage_setItem v w = w\<lparr>localStorage := Some v\<rparr>"

text \<open>A browser that has never run the application: the slot is absent.\<close>

definition fresh_world :: world where
  "fresh_world =
     \<lparr>ui = initial_state, localStorage = None, requests = [], toasts = [], console = []\<rparr>"

subsection \<open>\<open>fetchTrendingMovies\<close>\<close>

definition api_key_missing :: string where
  "api_key_missing = ''API key is missing. Please add your TMDB API key to the .env file.''"

text \<open>The statements of the \<open>try\<close> block up to the \<open>await\<close> of \<open>fetch\<close>.\<close>

definition fetchTrendingMovies_request :: "js_string \<Rightarrow> world \<Rightarrow> world" where
  "fetchTrendingMovies_request key w =
     (let w = setError None w;
          w = setLoading True w;
          w = setShowBookmarksOnly False w;
          w = setSearchQuery [] w
      in fetch (TrendingRequest key) w)"

text \<open>
  The rest of the \<open>try\<close> block once the request has settled, the \<open>catch\<close> block
  and the \<open>finally\<close> block.
\<close>

definition fetchTrendingMovies_settled :: "response \<Rightarrow> world \<Rightarrow> world" where
  "fetchTrendingMovies_settled r w =
     setLoading False
       (case r of
          Body (Some results) \<Rightarrow> setMovies results w
        | Body None \<Rightarrow> setError (Some ''No movies found'') (setMovies [] w)
        | _ \<Rightarrow>
            (let w = console_error ''Error fetching trending movies:'' w;
                 w = setError (Some ''Failed to fetch movies. Please try again later.'') w;
                 w = toast_error ''Failed to fetch movies. Please try again later.'' w
             in setMovies [] w))"

definition fetchTrendingMovies :: "api_key \<Rightarrow> response \<Rightarrow> world \<Rightarrow> world" where
  "fetchTrendingMovies key r w =
     (if falsy key then setLoading False (setError (Some api_key_missing) w)
      else fetchTrendingMovies_settled r (fetchTrendingMovies_request (the key) w))"

subsection \<open>\<open>searchMovies\<close>\<close>

definition searchMovies_request :: "js_string \<Rightarrow> js_string \<Rightarrow> world \<Rightarrow> world" where
  "searchMovies_request key query w =
     (let w = setError None w;
          w = setLoading True w;
          w = setShowBookmarksOnly False w
      in fetch (SearchRequest key query) w)"

definition searchMovies_settled :: "response \<Rightarrow> world \<Rightarrow> world" where
  "searchMovies_settled r w =
     setLoading False
       (case r of
          Body (Some results) \<Rightarrow>
            (let w = setMovies results w
             in if length results = 0
                then setError (Some ''No movies found for your search'') w else w)
        | Body None \<Rightarrow> setError (Some ''No movies found'') (setMovies [] w)
        | _ \<Rightarrow>
            (let w = console_error ''Error searching movies:'' w;
                 w = setError (Some ''Failed to search movies. Please try again later.'') w;
                 w = toast_error ''Failed to search movies. Please try again later.'' w
             in setMovies [] w))"

definition searchMovies :: "api_key \<Rightarrow> js_string \<Rightarrow> response \<Rightarrow> world \<Rightarrow> world" where
  "searchMovies key query r w =
     (if falsy key then setError (Some api_key_missing) w
      else if trim query = [] then fetchTrendingMovies key r w
      else searchMovies_settled r (searchMovies_request (the key) query w))"

subsection \<open>The effect run when the component mounts\<close>

text \<open>
  \<^verbatim>\<open>
  useEffect(() => {
    if (!TMDB_API_KEY) { setError('API key is missing. ...'); setLoading(false); return; }
    fetchTrendingMovies();
    const savedBookmarks = localStorage.getItem('movieVaultBookmarks');
    if (savedBookmarks) { setBookmarks(JSON.parse(savedBookmarks)); }
  }, []);
  \<close>
  The call of \<open>fetchTrendingMovies\<close> runs up to its \<open>await\<close>; the slot is read
  next; the request settles afterwards. When the text of the slot cannot be read as an
  array of identifiers the effect does not complete, which is the failure
  \<open>StoredBookmarksUnreadable\<close>.
\<close>

datatype failure = StoredBookmarksUnreadable

definition mount :: "api_key \<Rightarrow> response \<Rightarrow> world \<Rightarrow> failure + world" where
  "mount key r w =
     (if falsy key then Inr (setLoading False (setError (Some api_key_missing) w))
      else
        (let w = fetchTrendingMovies_request (the key) w;
             savedBookmarks = localStorage w
         in if falsy savedBookmarks then Inr (fetchTrendingMovies_settled r w)
            else
              (case JSON_parse (the savedBookmarks) of
                 None \<Rightarrow> Inl StoredBookmarksUnreadable
               | Some saved \<Rightarrow> Inr (fetchTrendingMovies_settled r (setBookmarks saved w)))))"

text \<open>
  Loading the page: the cells take their initial values, the storage slot is what the
  browser kept, and the effect runs once.
\<close>

definition page_load :: "api_key \<Rightarrow> response \<Rightarrow> world \<Rightarrow> failure + world" where
  "page_load key r w = mount key r (w\<lparr>ui := initial_state\<rparr>)"

subsection \<open>\<open>toggleBookmark\<close>\<close>

text \<open>
  \<^verbatim>\<open>
  const toggleBookmark = (movieId: number) => {
    const newBookmarks = bookmarks.includes(movieId)
      ? bookmarks.filter((id) => id !== movieId)
      : [...bookmarks, movieId];
    setBookmarks(newBookmarks);
    localStorage.setItem('movieVaultBookmarks', JSON.stringify(newBookmarks));
    toast.success(bookmarks.includes(movieId) ? 'Removed from bookmarks' : 'Added to bookmarks');
  };
  \<close>
  \<open>bookmarks\<close> is the value of the cell at the render that created the handler (the
  value before the toggle), also in the last statement.
\<close>

definition newBookmarks :: "int list \<Rightarrow> int \<Rightarrow> int list" where
  "newBookmarks bs movieId =
     (if includes_arr bs movieId then filter_arr bs (\<lambda>i. i \<noteq> movieId) else bs @ [movieId])"

definition toggleBookmark :: "int \<Rightarrow> world \<Rightarrow> world" where
  "toggleBookmark movieId w =
     (let bs = bookmarks (ui w);
          new = newBookmarks bs movieId;
          w = setBookmarks new w;
          w = localStorage_setItem (JSON_stringify new) w
      in toast_success
           (if includes_arr bs movieId then ''Removed from bookmarks'' else ''Added to bookmarks'')
           w)"

text \<open>A sequence of toggles, first identifier first.\<close>

definition toggles :: "int list \<Rightarrow> world \<Rightarrow> world" where
  "toggles ids w = fold toggleBookmark ids w"

text \<open>
  What the mount effect would load from the slot: nothing when the slot is absent or
  empty, the parsed array otherwise.
\<close>

definition stored_bookmarks :: "world \<Rightarrow> int list option" where
  "stored_bookmarks w =
     (if falsy (localStorage w) then Some [] else JSON_parse (the (localStorage w)))"

subsection \<open>The other handlers and the main panel\<close>

text \<open>The \<open>onChange\<close> handler of the search field.\<close>

definition onChange :: "api_key \<Rightarrow> js_string \<Rightarrow> response \<Rightarrow> world \<Rightarrow> world" where
  "onChange key v r w = searchMovies key v r (setSearchQuery v w)"

text \<open>The \<open>onClick\<close> handler of the Bookmarks button.\<close>

definition onClick_bookmarksOnly :: "world \<Rightarrow> world" where
  "onClick_bookmarksOnly w = setShowBookmarksOnly (\<not> showBookmarksOnly (ui w)) w"

text \<open>\<open>String.prototype.includes\<close> and the prefix test it repeats at each position.\<close>

fun starts_with :: "string \<Rightarrow> string \<Rightarrow> bool" where
  "starts_with s [] = True"
| "starts_with [] (c # p) = False"
| "starts_with (x # s) (c # p) = (x = c \<and> starts_with s p)"

fun includes_str :: "string \<Rightarrow> string \<Rightarrow> bool" where
  "includes_str [] p = (p = [])"
| "includes_str (x # s) p = (starts_with (x # s) p \<or> includes_str s p)"

text \<open>
  The main panel, as the nested conditional of the JSX chooses it: the spinner, the
  error text (with the instructions for obtaining a key when the text mentions
  \<open>API key\<close>), the empty-bookmarks panel, or the grid of the displayed movies.
\<close>

datatype view =
  Spinner
| ErrorPanel string bool
| NoBookmarksPanel
| MovieGrid "movie list"

definition render :: "app_state \<Rightarrow> view" where
  "render s =
     (if loading s then Spinner
      else if \<not> falsy (error s)
        then ErrorPanel (the (error s)) (includes_str (the (error s)) ''API key'')
      else if length (displayedMovies s) = 0 \<and> showBookmarksOnly s then NoBookmarksPanel
      else MovieGrid (displayedMovies s))"

subsection \<open>Sessions\<close>

text \<open>
  What can happen to the application: the page is loaded (or reloaded), and the user
  clicks the home button, types in the search field, clicks a bookmark button, the
  Bookmarks button, an info button or the close button of the details. Each network
  event carries the way its request settles.
\<close>

datatype event =
  PageLoad response
| ClickHome response
| ChangeSearch js_string response
| ClickBookmark int
| ClickBookmarksOnly
| ClickInfo movie
| CloseDetails

fun step :: "api_key \<Rightarrow> event \<Rightarrow> world \<Rightarrow> failure + world" where
  "step key (PageLoad r) w = page_load key r w"
| "step key (ClickHome r) w = Inr (fetchTrendingMovies key r w)"
| "step key (ChangeSearch v r) w = Inr (onChange key v r w)"
| "step key (ClickBookmark movieId) w = Inr (toggleBookmark movieId w)"
| "step key ClickBookmarksOnly w = Inr (onClick_bookmarksOnly w)"
| "step key (ClickInfo m) w = Inr (setSelectedMovie (Some m) w)"
| "step key CloseDetails w = Inr (setSelectedMovie None w)"

fun run :: "api_key \<Rightarrow> event list \<Rightarrow> world \<Rightarrow> failure + world" where
  "run key [] w = Inr w"
| "run key (e # es) w = (case step key e w of Inl f \<Rightarrow> Inl f | Inr w' \<Rightarrow> run key es w')"

subsection \<open>Worlds used as examples and the invariant of the storage slot\<close>

definition example_movie :: "int \<Rightarrow> movie" where
  "example_movie i =
     \<lparr>movie_id = i, title = [], poster_path = [], vote_average = 0, overview = [],
      release_date = []\<rparr>"

definition example_state :: "movie list \<Rightarrow> int list \<Rightarrow> bool \<Rightarrow> app_state" where
  "example_state ms bs flag =
     initial_state\<lparr>movies := ms, loading := False, bookmarks := bs,
       showBookmarksOnly := flag\<rparr>"

text \<open>A browser whose slot holds the text \<open>s\<close>.\<close>

definition stored_world :: "string \<Rightarrow> world" where
  "stored_world s = fresh_world\<lparr>localStorage := Some s\<rparr>"

text \<open>
  The bookmarks in memory have no duplicates, and the slot is absent or holds what
  \<open>toggleBookmark\<close> wrote for an array without duplicates.
\<close>

definition app_written :: "world \<Rightarrow> bool" where
  "app_written w \<longleftrightarrow>
     distinct (bookmarks (ui w)) \<and>
     (localStorage w = None \<or>
      (\<exists>bs. distinct bs \<and> localStorage w = Some (JSON_stringify bs)))"

section \<open>Properties\<close>

subsection \<open>Array methods\<close>

lemma includes_arr_iff: "includes_arr xs v \<longleftrightarrow> v \<in> set xs"
  by (induction xs) auto

lemma filter_array_eq: "filter_array cb xs kept = kept @ filter cb xs"
  by (induction xs arbitrary: kept) auto

lemma filter_arr_eq: "filter_arr xs cb = filter cb xs"
  by (simp add: filter_arr_def filter_array_eq)

subsection \<open>Writing and reading the storage text\<close>

lemma digit_of_digit_char: "d < 10 \<Longrightarrow> digit_of (digit_char d) = Some d"
  by (simp add: digit_of_def digit_char_def Let_def)

lemma digit_char_neq_zero: "0 < d \<Longrightarrow> d < 10 \<Longrightarrow> digit_char d \<noteq> CHR ''0''"
proof
  assume d: "0 < d" "d < 10" and eq: "digit_char d = CHR ''0''"
  from d(2) have "digit_of (digit_char d) = Some d" by (rule digit_of_digit_char)
  with eq have "digit_of CHR ''0'' = Some d" by simp
  then have "d = 0" by (simp add: digit_of_def Let_def)
  with d(1) show False by simp
qed

lemma digit_of_comma: "digit_of CHR '','' = None"
  by (simp add: digit_of_def Let_def)

lemma digit_of_minus: "digit_of CHR ''-'' = None"
  by (simp add: digit_of_def Let_def)

lemma digits_value_snoc:
  "digits_value acc (cs @ [c]) =
     (case digits_value acc cs of None \<Rightarrow> None
      | Some v \<Rightarrow> (case digit_of c of None \<Rightarrow> None | Some d \<Rightarrow> Some (10 * v + d)))"
  by (induction cs arbitrary: acc) (auto split: option.splits)

lemma digits_value_nat_digits: "digits_value 0 (nat_digits n) = Some n"
proof (induction n rule: nat_digits.induct)
  case (1 n)
  show ?case
  proof (cases "n < 10")
    case True
    then show ?thesis by (simp add: nat_digits.simps [of n] digit_of_digit_char)
  next
    case False
    with 1 have "digits_value 0 (nat_digits (n div 10)) = Some (n div 10)" by simp
    with False show ?thesis
      by (simp add: nat_digits.simps [of n] digits_value_snoc digit_of_digit_char)
  qed
qed

lemma nat_digits_not_Nil: "nat_digits n \<noteq> []"
  by (simp add: nat_digits.simps [of n])

lemma nat_digits_all_digits: "c \<in> set (nat_digits n) \<Longrightarrow> digit_of c \<noteq> None"
proof (induction n rule: nat_digits.induct)
  case (1 n)
  show ?case
  proof (cases "n < 10")
    case True
    with 1(2) show ?thesis by (simp add: nat_digits.simps [of n] digit_of_digit_char)
  next
    case False
    with 1(2) have "c \<in> set (nat_digits (n div 10)) \<or> c = digit_char (n mod 10)"
      by (auto simp: nat_digits.simps [of n])
    then show ?thesis
    proof
      assume "c \<in> set (nat_digits (n div 10))"
      with 1(1) False show ?thesis by simp
    next
      assume "c = digit_char (n mod 10)"
      then show ?thesis by (simp add: digit_of_digit_char)
    qed
  qed
qed

lemma hd_nat_digits: "0 < n \<Longrightarrow> hd (nat_digits n) \<noteq> CHR ''0''"
proof (induction n rule: nat_digits.induct)
  case (1 n)
  show ?case
  proof (cases "n < 10")
    case True
    with 1(2) show ?thesis by (simp add: nat_digits.simps [of n] digit_char_neq_zero)
  next
    case False
    then have "0 < n div 10" by simp
    with 1(1) False have "hd (nat_digits (n div 10)) \<noteq> CHR ''0''" by simp
    with False show ?thesis
      by (simp add: nat_digits.simps [of n] nat_digits_not_Nil)
  qed
qed

lemma parse_nat_nat_digits: "parse_nat (nat_digits n) = Some n"
proof (cases "n = 0")
  case True
  then show ?thesis
    by (simp add: parse_nat_def nat_digits.simps [of 0] digit_char_def digit_of_def Let_def)
next
  case False
  then have "hd (nat_digits n) \<noteq> CHR ''0''" by (simp add: hd_nat_digits)
  then show ?thesis
    by (simp add: parse_nat_def nat_digits_not_Nil digits_value_nat_digits)
qed

lemma hd_nat_digits_not_minus: "hd (nat_digits n) \<noteq> CHR ''-''"
proof
  assume eq: "hd (nat_digits n) = CHR ''-''"
  have "hd (nat_digits n) \<in> set (nat_digits n)" by (simp add: nat_digits_not_Nil)
  then have "digit_of (hd (nat_digits n)) \<noteq> None" by (rule nat_digits_all_digits)
  with eq show False by (simp add: digit_of_minus)
qed

lemma parse_number_toString: "parse_number (number_toString i) = Some i"
  by (simp add: parse_number_def number_toString_def parse_nat_nat_digits
      hd_nat_digits_not_minus nat_digits_not_Nil)

lemma comma_notin_number_toString: "CHR '','' \<notin> set (number_toString i)"
proof -
  have "CHR '','' \<notin> set (nat_digits n)" for n
    using nat_digits_all_digits [of "CHR '',''" n] by (auto simp: digit_of_comma)
  then show ?thesis by (simp add: number_toString_def)
qed

lemma number_toString_not_Nil: "number_toString i \<noteq> []"
  by (simp add: number_toString_def nat_digits_not_Nil)

lemma split_comma_no_comma: "CHR '','' \<notin> set p \<Longrightarrow> split_comma p = [p]"
  by (induction p) auto

lemma split_comma_append:
  "CHR '','' \<notin> set p \<Longrightarrow> split_comma (p @ CHR '','' # s) = p # split_comma s"
  by (induction p) auto

lemma split_comma_join_comma:
  "ps \<noteq> [] \<Longrightarrow> \<forall>p \<in> set ps. CHR '','' \<notin> set p \<Longrightarrow> split_comma (join_comma ps) = ps"
proof (induction ps rule: join_comma.induct)
  case 1
  then show ?case by simp
next
  case (2 p)
  then show ?case by (simp add: split_comma_no_comma)
next
  case (3 p q ps)
  then show ?case by (simp add: split_comma_append)
qed

lemma parse_elements_map: "parse_elements (map number_toString xs) = Some xs"
  by (induction xs) (simp_all add: parse_number_toString)

lemma join_comma_Nil_iff: "ps \<noteq> [] \<Longrightarrow> \<forall>p \<in> set ps. p \<noteq> [] \<Longrightarrow> join_comma ps \<noteq> []"
  by (induction ps rule: join_comma.induct) auto

lemma JSON_parse_stringify: "JSON_parse (JSON_stringify xs) = Some xs"
proof (cases "xs = []")
  case True
  then show ?thesis by (simp add: JSON_parse_def JSON_stringify_def)
next
  case False
  let ?ps = "map number_toString xs"
  from False have ne: "?ps \<noteq> []" by simp
  have nocomma: "\<forall>p \<in> set ?ps. CHR '','' \<notin> set p"
    by (auto simp: comma_notin_number_toString)
  have nonempty: "\<forall>p \<in> set ?ps. p \<noteq> []"
    by (auto simp: number_toString_not_Nil)
  have body: "join_comma ?ps \<noteq> []"
    using ne nonempty by (rule join_comma_Nil_iff)
  have "split_comma (join_comma ?ps) = ?ps"
    using ne nocomma by (rule split_comma_join_comma)
  with body show ?thesis
    by (simp add: JSON_parse_def JSON_stringify_def Let_def butlast_append parse_elements_map)
qed

lemma JSON_stringify_not_Nil: "JSON_stringify xs \<noteq> []"
  by (simp add: JSON_stringify_def)

subsection \<open>The bookmark toggle\<close>

lemma newBookmarks_eq:
  "newBookmarks bs i = (if i \<in> set bs then filter (\<lambda>j. j \<noteq> i) bs else bs @ [i])"
  by (simp add: newBookmarks_def includes_arr_iff filter_arr_eq)

lemma set_newBookmarks:
  "set (newBookmarks bs i) = (if i \<in> set bs then set bs - {i} else insert i (set bs))"
  by (auto simp: newBookmarks_eq)

lemma newBookmarks_twice_set: "set (newBookmarks (newBookmarks bs i) i) = set bs"
  by (auto simp: set_newBookmarks)

lemma distinct_newBookmarks: "distinct bs \<Longrightarrow> distinct (newBookmarks bs i)"
  by (simp add: newBookmarks_eq)

lemma ui_toggleBookmark:
  "ui (toggleBookmark i w) = (ui w)\<lparr>bookmarks := newBookmarks (bookmarks (ui w)) i\<rparr>"
  by (simp add: toggleBookmark_def Let_def setBookmarks_def localStorage_setItem_def
      toast_success_def)

lemma bookmarks_toggleBookmark:
  "bookmarks (ui (toggleBookmark i w)) = newBookmarks (bookmarks (ui w)) i"
  by (simp add: ui_toggleBookmark)

lemma localStorage_toggleBookmark:
  "localStorage (toggleBookmark i w) =
     Some (JSON_stringify (newBookmarks (bookmarks (ui w)) i))"
  by (simp add: toggleBookmark_def Let_def setBookmarks_def localStorage_setItem_def
      toast_success_def)

lemma toasts_toggleBookmark:
  "toasts (toggleBookmark i w) =
     toasts w @
     [ToastSuccess (if i \<in> set (bookmarks (ui w)) then ''Removed from bookmarks''
                    else ''Added to bookmarks'')]"
  by (simp add: toggleBookmark_def Let_def setBookmarks_def localStorage_setItem_def
      toast_success_def includes_arr_iff)

lemma requests_toggleBookmark: "requests (toggleBookmark i w) = requests w"
  by (simp add: toggleBookmark_def Let_def setBookmarks_def localStorage_setItem_def
      toast_success_def)

subsection \<open>Unfolding the setters and the effects\<close>

lemmas setter_defs =
  setMovies_def setLoading_def setSearchQuery_def setBookmarks_def setSelectedMovie_def
  setError_def setShowBookmarksOnly_def fetch_def toast_success_def toast_error_def
  console_error_def localStorage_setItem_def

subsection \<open>What the handlers leave alone\<close>

lemma fetchTrendingMovies_request_frame:
  "bookmarks (ui (fetchTrendingMovies_request k w)) = bookmarks (ui w)"
  "localStorage (fetchTrendingMovies_request k w) = localStorage w"
  "requests (fetchTrendingMovies_request k w) = requests w @ [TrendingRequest k]"
  "movies (ui (fetchTrendingMovies_request k w)) = movies (ui w)"
  by (simp_all add: fetchTrendingMovies_request_def Let_def setter_defs)

lemma fetchTrendingMovies_settled_frame:
  "bookmarks (ui (fetchTrendingMovies_settled r w)) = bookmarks (ui w)"
  "localStorage (fetchTrendingMovies_settled r w) = localStorage w"
  "requests (fetchTrendingMovies_settled r w) = requests w"
  by (simp_all add: fetchTrendingMovies_settled_def Let_def setter_defs
      split: response.splits option.splits)

lemma searchMovies_request_frame:
  "bookmarks (ui (searchMovies_request k q w)) = bookmarks (ui w)"
  "localStorage (searchMovies_request k q w) = localStorage w"
  "requests (searchMovies_request k q w) = requests w @ [SearchRequest k q]"
  by (simp_all add: searchMovies_request_def Let_def setter_defs)

lemma searchMovies_settled_frame:
  "bookmarks (ui (searchMovies_settled r w)) = bookmarks (ui w)"
  "localStorage (searchMovies_settled r w) = localStorage w"
  "requests (searchMovies_settled r w) = requests w"
  by (simp_all add: searchMovies_settled_def Let_def setter_defs
      split: response.splits option.splits)

lemma fetchTrendingMovies_frame:
  "bookmarks (ui (fetchTrendingMovies key r w)) = bookmarks (ui w)"
  "localStorage (fetchTrendingMovies key r w) = localStorage w"
  by (simp_all add: fetchTrendingMovies_def fetchTrendingMovies_request_frame
      fetchTrendingMovies_settled_frame setter_defs)

lemma searchMovies_frame:
  "bookmarks (ui (searchMovies key q r w)) = bookmarks (ui w)"
  "localStorage (searchMovies key q r w) = localStorage w"
  by (simp_all add: searchMovies_def fetchTrendingMovies_frame searchMovies_request_frame
      searchMovies_settled_frame setter_defs)

lemma onChange_frame:
  "bookmarks (ui (onChange key q r w)) = bookmarks (ui w)"
  "localStorage (onChange key q r w) = localStorage w"
  by (simp_all add: onChange_def searchMovies_frame setter_defs)

lemma other_handlers_frame:
  "bookmarks (ui (onClick_bookmarksOnly w)) = bookmarks (ui w)"
  "localStorage (onClick_bookmarksOnly w) = localStorage w"
  "bookmarks (ui (setSelectedMovie m w)) = bookmarks (ui w)"
  "localStorage (setSelectedMovie m w) = localStorage w"
  by (simp_all add: onClick_bookmarksOnly_def setter_defs)

subsection \<open>Loading the page\<close>

lemma page_load_no_key:
  "falsy key \<Longrightarrow>
   page_load key r w = Inr (setLoading False (setError (Some api_key_missing) (w\<lparr>ui := initial_state\<rparr>)))"
  by (simp add: page_load_def mount_def)

lemma page_load_key:
  assumes "\<not> falsy key" and "stored_bookmarks w = Some bs"
  shows "\<exists>w'. page_load key r w = Inr w' \<and> bookmarks (ui w') = bs
      \<and> localStorage w' = localStorage w"
proof (cases "falsy (localStorage w)")
  case True
  with assms show ?thesis
    by (simp add: page_load_def mount_def Let_def stored_bookmarks_def
        fetchTrendingMovies_request_frame fetchTrendingMovies_settled_frame initial_state_def)
next
  case False
  with assms show ?thesis
    by (simp add: page_load_def mount_def Let_def stored_bookmarks_def
        fetchTrendingMovies_request_frame fetchTrendingMovies_settled_frame setBookmarks_def)
qed

lemma page_load_key_unreadable:
  "\<not> falsy key \<Longrightarrow> stored_bookmarks w = None \<Longrightarrow> page_load key r w = Inl StoredBookmarksUnreadable"
  by (simp add: page_load_def mount_def Let_def stored_bookmarks_def
        fetchTrendingMovies_request_frame split: if_splits)

section \<open>The display filter\<close>

text \<open>
  Claim C1. For every fetched list and every bookmark array: with the bookmarks-only
  flag set, the displayed list is the fetched list restricted to the movies whose
  identifier is among the bookmarks, in the order of the fetched list; with the flag
  clear, the displayed list is the fetched list itself.
\<close>

theorem displayedMovies_bookmarks_filter:
  "displayedMovies s =
     (if showBookmarksOnly s
      then filter (\<lambda>m. movie_id m \<in> set (bookmarks s)) (movies s)
      else movies s)
   \<and> subseq (displayedMovies s) (movies s)"
proof (cases "showBookmarksOnly s")
  case True
  then have "displayedMovies s = filter (\<lambda>m. movie_id m \<in> set (bookmarks s)) (movies s)"
    by (simp add: displayedMovies_def filter_arr_eq includes_arr_iff)
  with True show ?thesis by simp
next
  case False
  then show ?thesis by (simp add: displayedMovies_def)
qed

text \<open>
  The example of the specification: fetched A (1), B (2), C (3), bookmarks 3 and 1; the
  displayed list is A, C with the flag set and A, B, C with the flag clear.
\<close>

theorem displayedMovies_bookmarks_filter_witness:
  "displayedMovies
     (example_state [example_movie 1, example_movie 2, example_movie 3] [3, 1] True)
     = [example_movie 1, example_movie 3]
   \<and> displayedMovies
     (example_state [example_movie 1, example_movie 2, example_movie 3] [3, 1] False)
     = [example_movie 1, example_movie 2, example_movie 3]"
  using displayedMovies_bookmarks_filter
    [of "example_state [example_movie 1, example_movie 2, example_movie 3] [3, 1] True"]
    displayedMovies_bookmarks_filter
    [of "example_state [example_movie 1, example_movie 2, example_movie 3] [3, 1] False"]
  by (simp add: example_state_def example_movie_def initial_state_def)

section \<open>The bookmark toggle\<close>

text \<open>
  Claim C2. Toggling the same identifier twice gives back the bookmark set: the same
  identifiers are bookmarked as before, and the membership test answers as before for
  every identifier.
\<close>

theorem toggleBookmark_twice:
  "set (bookmarks (ui (toggleBookmark i (toggleBookmark i w)))) = set (bookmarks (ui w))
   \<and> includes_arr (bookmarks (ui (toggleBookmark i (toggleBookmark i w)))) j
       = includes_arr (bookmarks (ui w)) j"
proof -
  have "bookmarks (ui (toggleBookmark i (toggleBookmark i w)))
      = newBookmarks (newBookmarks (bookmarks (ui w)) i) i"
    by (simp add: bookmarks_toggleBookmark)
  then show ?thesis by (simp add: newBookmarks_twice_set includes_arr_iff)
qed

theorem toggleBookmark_twice_witness:
  "set (bookmarks (ui (toggleBookmark 1 (toggleBookmark 1 (setBookmarks [1, 2] fresh_world)))))
     = {1, 2}"
  using toggleBookmark_twice [of 1 "setBookmarks [1, 2] fresh_world" 1]
  by (simp add: setBookmarks_def insert_commute)

text \<open>
  The array that carries the set is not always the same array again: a bookmark that is
  removed and added again moves to the end.
\<close>

lemma toggleBookmark_twice_order:
  "bookmarks (ui (toggleBookmark 1 (toggleBookmark 1 (setBookmarks [1, 2] fresh_world))))
     = [2, 1]"
  by (simp add: bookmarks_toggleBookmark newBookmarks_eq setBookmarks_def)

text \<open>One toggle leaves the slot holding the text of the array in memory.\<close>

lemma toggleBookmark_in_sync:
  "localStorage (toggleBookmark i w)
     = Some (JSON_stringify (bookmarks (ui (toggleBookmark i w))))
   \<and> stored_bookmarks (toggleBookmark i w) = Some (bookmarks (ui (toggleBookmark i w)))"
  by (simp add: stored_bookmarks_def falsy_def localStorage_toggleBookmark
      bookmarks_toggleBookmark JSON_parse_stringify JSON_stringify_not_Nil)

lemma toggles_example: "bookmarks (ui (toggles [5, 7, 5] (stored_world s))) = [7]"
  by (simp add: toggles_def bookmarks_toggleBookmark newBookmarks_eq stored_world_def
      fresh_world_def initial_state_def)

lemma stringify_example: "JSON_stringify [7] = ''[7]''"
  by code_simp

lemma stringify_example2: "JSON_stringify [12, -305, 0] = ''[12,-305,0]''"
  by code_simp

text \<open>
  Claim C3. After any sequence of toggles the slot, read back, is exactly the array of
  the bookmarks in memory. This holds from every state of the application and of the
  slot when the sequence has a toggle in it (the last toggle writes the whole array),
  and for the empty sequence when the two agree to begin with.
\<close>

theorem toggles_storage_in_sync:
  assumes "ids \<noteq> [] \<or> stored_bookmarks w = Some (bookmarks (ui w))"
  shows "stored_bookmarks (toggles ids w) = Some (bookmarks (ui (toggles ids w)))
    \<and> (ids \<noteq> [] \<longrightarrow>
         localStorage (toggles ids w)
           = Some (JSON_stringify (bookmarks (ui (toggles ids w)))))"
proof (cases "ids = []")
  case True
  with assms show ?thesis by (simp add: toggles_def)
next
  case False
  then obtain xs x where "ids = xs @ [x]"
    by (cases ids rule: rev_cases) auto
  then have "toggles ids w = toggleBookmark x (toggles xs w)"
    by (simp add: toggles_def)
  then show ?thesis by (simp add: toggleBookmark_in_sync)
qed

theorem toggles_storage_in_sync_witness:
  "[5, 7, 5] \<noteq> ([] :: int list)
   \<and> bookmarks (ui (toggles [5, 7, 5] (stored_world ''[1,2]''))) = [7]
   \<and> localStorage (toggles [5, 7, 5] (stored_world ''[1,2]'')) = Some ''[7]''
   \<and> stored_bookmarks (toggles [5, 7, 5] (stored_world ''[1,2]'')) = Some [7]"
  using toggles_storage_in_sync [of "[5, 7, 5]" "stored_world ''[1,2]''"]
  by (simp add: toggles_example stringify_example)

text \<open>
  Claim C9. The toast of a toggle is chosen by the membership of the identifier before
  the toggle: it announces a removal exactly when the identifier was bookmarked, and an
  addition exactly when it was not.
\<close>

theorem toggleBookmark_toast:
  "toasts (toggleBookmark i w) =
     toasts w @
     [ToastSuccess (if i \<in> set (bookmarks (ui w)) then ''Removed from bookmarks''
                    else ''Added to bookmarks'')]
   \<and> (last (toasts (toggleBookmark i w)) = ToastSuccess ''Removed from bookmarks''
        \<longleftrightarrow> i \<in> set (bookmarks (ui w)))
   \<and> (last (toasts (toggleBookmark i w)) = ToastSuccess ''Added to bookmarks''
        \<longleftrightarrow> i \<notin> set (bookmarks (ui w)))"
proof -
  have "toasts (toggleBookmark i w) =
     toasts w @
     [ToastSuccess (if i \<in> set (bookmarks (ui w)) then ''Removed from bookmarks''
                    else ''Added to bookmarks'')]"
    by (rule toasts_toggleBookmark)
  then show ?thesis by simp
qed

theorem toggleBookmark_toast_witness:
  "last (toasts (toggleBookmark 4 fresh_world)) = ToastSuccess ''Added to bookmarks''
   \<and> last (toasts (toggleBookmark 4 (toggleBookmark 4 fresh_world)))
       = ToastSuccess ''Removed from bookmarks''"
  using toggleBookmark_toast [of 4 fresh_world]
    toggleBookmark_toast [of 4 "toggleBookmark 4 fresh_world"]
  by (simp add: bookmarks_toggleBookmark newBookmarks_eq fresh_world_def initial_state_def)

text \<open>
  Claim C10. A toggle changes the bookmarks and the slot only: the movie list, the
  loading flag, the error text, the search text, the selected movie and the
  bookmarks-only flag are what they were. (It also issues no request and writes nothing
  to the console.)
\<close>

theorem toggleBookmark_frame:
  "movies (ui (toggleBookmark i w)) = movies (ui w)
   \<and> loading (ui (toggleBookmark i w)) = loading (ui w)
   \<and> error (ui (toggleBookmark i w)) = error (ui w)
   \<and> searchQuery (ui (toggleBookmark i w)) = searchQuery (ui w)
   \<and> selectedMovie (ui (toggleBookmark i w)) = selectedMovie (ui w)
   \<and> showBookmarksOnly (ui (toggleBookmark i w)) = showBookmarksOnly (ui w)
   \<and> requests (toggleBookmark i w) = requests w
   \<and> console (toggleBookmark i w) = console w"
proof -
  have "console (toggleBookmark i w) = console w"
    by (simp add: toggleBookmark_def Let_def setter_defs)
  then show ?thesis by (simp add: ui_toggleBookmark requests_toggleBookmark)
qed

theorem toggleBookmark_frame_witness:
  "movies (ui (toggleBookmark 2 (setMovies [example_movie 2] fresh_world))) = [example_movie 2]
   \<and> loading (ui (toggleBookmark 2 (setMovies [example_movie 2] fresh_world)))
   \<and> bookmarks (ui (toggleBookmark 2 (setMovies [example_movie 2] fresh_world))) = [2]"
  using toggleBookmark_frame [of 2 "setMovies [example_movie 2] fresh_world"]
  by (simp add: bookmarks_toggleBookmark newBookmarks_eq setMovies_def fresh_world_def
      initial_state_def)

section \<open>Sessions: the bookmarks have no duplicates\<close>

lemma app_written_fresh: "app_written fresh_world"
  by (simp add: app_written_def fresh_world_def initial_state_def)

lemma app_written_stored:
  "app_written w \<Longrightarrow> \<exists>bs. distinct bs \<and> stored_bookmarks w = Some bs"
  by (auto simp: app_written_def stored_bookmarks_def falsy_def JSON_parse_stringify
      JSON_stringify_not_Nil)

lemma app_written_frame:
  "app_written w \<Longrightarrow> bookmarks (ui w') = bookmarks (ui w) \<Longrightarrow>
   localStorage w' = localStorage w \<Longrightarrow> app_written w'"
  by (simp add: app_written_def)

lemma app_written_toggleBookmark:
  assumes "app_written w"
  shows "app_written (toggleBookmark i w)"
proof -
  let ?new = "newBookmarks (bookmarks (ui w)) i"
  from assms have "distinct ?new" by (simp add: app_written_def distinct_newBookmarks)
  moreover from this have
    "\<exists>bs. distinct bs \<and> localStorage (toggleBookmark i w) = Some (JSON_stringify bs)"
    unfolding localStorage_toggleBookmark by blast
  ultimately show ?thesis by (simp add: app_written_def bookmarks_toggleBookmark)
qed

lemma app_written_page_load:
  assumes "app_written w"
  shows "\<exists>w'. page_load key r w = Inr w' \<and> app_written w'"
proof (cases "falsy key")
  case True
  have "app_written (setLoading False (setError (Some api_key_missing) (w\<lparr>ui := initial_state\<rparr>)))"
    using assms by (simp add: app_written_def setter_defs initial_state_def)
  with True show ?thesis by (simp add: page_load_no_key)
next
  case False
  from assms obtain bs where bs: "distinct bs" "stored_bookmarks w = Some bs"
    using app_written_stored by blast
  from page_load_key [OF False bs(2)] obtain w' where
    w': "page_load key r w = Inr w'" "bookmarks (ui w') = bs" "localStorage w' = localStorage w"
    by blast
  from assms bs(1) w'(2,3) have "app_written w'" by (simp add: app_written_def)
  with w'(1) show ?thesis by simp
qed

lemma app_written_step:
  assumes "app_written w"
  shows "\<exists>w'. step key e w = Inr w' \<and> app_written w'"
proof (cases e)
  case (PageLoad r)
  with assms show ?thesis by (simp add: app_written_page_load)
next
  case (ClickHome r)
  with assms show ?thesis
    by (simp add: app_written_frame [OF assms] fetchTrendingMovies_frame)
next
  case (ChangeSearch v r)
  with assms show ?thesis by (simp add: app_written_frame [OF assms] onChange_frame)
next
  case (ClickBookmark i)
  with assms show ?thesis by (simp add: app_written_toggleBookmark)
next
  case ClickBookmarksOnly
  with assms show ?thesis by (simp add: app_written_frame [OF assms] other_handlers_frame)
next
  case (ClickInfo m)
  with assms show ?thesis by (simp add: app_written_frame [OF assms] other_handlers_frame)
next
  case CloseDetails
  with assms show ?thesis by (simp add: app_written_frame [OF assms] other_handlers_frame)
qed

lemma app_written_run:
  "app_written w \<Longrightarrow> \<exists>w'. run key es w = Inr w' \<and> app_written w'"
proof (induction es arbitrary: w)
  case Nil
  then show ?case by simp
next
  case (Cons e es)
  from app_written_step [OF Cons.prems] obtain w1 where
    w1: "step key e w = Inr w1" "app_written w1" by blast
  from Cons.IH [OF w1(2)] obtain w' where "run key es w1 = Inr w'" "app_written w'" by blast
  with w1(1) show ?case by simp
qed

text \<open>
  Claim C8. The bookmarks never hold an identifier twice. A toggle of any identifier
  keeps an array without duplicates free of duplicates; and in a browser that starts
  with the slot absent, after any sequence of page loads, clicks and searches (with any
  access key and any outcome of the requests) the application is running and its
  bookmarks have no duplicates. The slot is written by \<open>toggleBookmark\<close> only, so
  every page load of such a session reads an array without duplicates.
\<close>

theorem bookmarks_distinct:
  "(distinct (bookmarks (ui w)) \<longrightarrow> distinct (bookmarks (ui (toggleBookmark i w))))
   \<and> (\<exists>w'. run key es fresh_world = Inr w' \<and> distinct (bookmarks (ui w')))"
proof
  show "distinct (bookmarks (ui w)) \<longrightarrow> distinct (bookmarks (ui (toggleBookmark i w)))"
    by (simp add: bookmarks_toggleBookmark distinct_newBookmarks)
  from app_written_run [OF app_written_fresh, of key es]
  show "\<exists>w'. run key es fresh_world = Inr w' \<and> distinct (bookmarks (ui w'))"
    by (auto simp: app_written_def)
qed

theorem bookmarks_distinct_witness:
  "distinct (bookmarks (ui (toggleBookmark 3 fresh_world)))
   \<and> distinct (bookmarks (ui (toggleBookmark 3 (toggleBookmark 3 fresh_world))))
   \<and> (\<exists>w'. run (Some [0x6B])
          [PageLoad Rejected, ClickBookmark 3, ClickBookmark 4, PageLoad (Body (Some [])),
           ClickBookmark 3] fresh_world = Inr w'
        \<and> distinct (bookmarks (ui w')))"
  using bookmarks_distinct [of "toggleBookmark 3 fresh_world" 3 "Some [0x6B]"
      "[PageLoad Rejected, ClickBookmark 3, ClickBookmark 4, PageLoad (Body (Some [])),
           ClickBookmark 3]"]
  by (simp add: bookmarks_toggleBookmark newBookmarks_eq fresh_world_def initial_state_def)

section \<open>The missing access key\<close>

lemma includes_api_key: "includes_str api_key_missing ''API key''"
  by (simp add: api_key_missing_def)

lemma render_config_error:
  "render (ui (setLoading False (setError (Some api_key_missing) w))) = ErrorPanel api_key_missing True"
  by (simp add: render_def setter_defs falsy_def includes_api_key) (simp add: api_key_missing_def)

lemma step_no_key_requests:
  assumes "falsy key"
  shows "\<exists>w'. step key e w = Inr w' \<and> requests w' = requests w"
  using assms
  by (cases e) (simp_all add: page_load_no_key fetchTrendingMovies_def onChange_def
      searchMovies_def requests_toggleBookmark onClick_bookmarksOnly_def setter_defs)

lemma run_no_key_requests:
  "falsy key \<Longrightarrow> \<exists>w'. run key es w = Inr w' \<and> requests w' = requests w"
proof (induction es arbitrary: w)
  case Nil
  then show ?case by simp
next
  case (Cons e es)
  from step_no_key_requests [OF Cons.prems, of e w] obtain w1 where
    w1: "step key e w = Inr w1" "requests w1 = requests w" by blast
  from Cons.IH [OF Cons.prems, of w1] obtain w' where
    "run key es w1 = Inr w'" "requests w' = requests w1" by blast
  with w1 show ?case by simp
qed

text \<open>
  Claim C4. When the access key is absent (undefined or empty): loading the page ends in
  the configuration-error state (the error text is the missing-key message, the spinner
  is off, and the panel shown is the error panel with the instructions for obtaining a
  key) without any request; \<open>fetchTrendingMovies\<close> and \<open>searchMovies\<close> both set
  the missing-key message and issue no request; and no sequence of events issues a
  request.
\<close>

theorem missing_credential:
  assumes "falsy key"
  shows "(\<exists>w'. page_load key r w = Inr w' \<and> error (ui w') = Some api_key_missing
            \<and> \<not> loading (ui w') \<and> render (ui w') = ErrorPanel api_key_missing True
            \<and> movies (ui w') = [] \<and> requests w' = requests w)
       \<and> error (ui (fetchTrendingMovies key r w)) = Some api_key_missing
       \<and> requests (fetchTrendingMovies key r w) = requests w
       \<and> error (ui (searchMovies key query r w)) = Some api_key_missing
       \<and> requests (searchMovies key query r w) = requests w
       \<and> (\<exists>w'. run key es w = Inr w' \<and> requests w' = requests w)"
proof -
  let ?w' = "setLoading False (setError (Some api_key_missing) (w\<lparr>ui := initial_state\<rparr>))"
  have "page_load key r w = Inr ?w'" using assms by (rule page_load_no_key)
  moreover have "error (ui ?w') = Some api_key_missing" "\<not> loading (ui ?w')"
    "movies (ui ?w') = []" "requests ?w' = requests w"
    by (simp_all add: setter_defs initial_state_def)
  moreover have "render (ui ?w') = ErrorPanel api_key_missing True"
    by (rule render_config_error)
  ultimately have 1: "\<exists>w'. page_load key r w = Inr w' \<and> error (ui w') = Some api_key_missing
            \<and> \<not> loading (ui w') \<and> render (ui w') = ErrorPanel api_key_missing True
            \<and> movies (ui w') = [] \<and> requests w' = requests w"
    by simp
  have 2: "error (ui (fetchTrendingMovies key r w)) = Some api_key_missing"
    "requests (fetchTrendingMovies key r w) = requests w"
    using assms by (simp_all add: fetchTrendingMovies_def setter_defs)
  have 3: "error (ui (searchMovies key query r w)) = Some api_key_missing"
    "requests (searchMovies key query r w) = requests w"
    using assms by (simp_all add: searchMovies_def setter_defs)
  from 1 2 3 run_no_key_requests [OF assms, of es w] show ?thesis by simp
qed

theorem missing_credential_witness:
  "falsy (None :: api_key)
   \<and> (\<exists>w'. page_load None (Body (Some [example_movie 1])) fresh_world = Inr w'
         \<and> error (ui w') = Some api_key_missing
         \<and> \<not> loading (ui w') \<and> render (ui w') = ErrorPanel api_key_missing True
         \<and> movies (ui w') = [] \<and> requests w' = [])
   \<and> requests (fetchTrendingMovies None (Body (Some [example_movie 1])) fresh_world) = []
   \<and> requests (searchMovies None [0x61] (Body (Some [example_movie 1])) fresh_world) = []"
  using missing_credential [of None "Body (Some [example_movie 1])" fresh_world "[0x61]" "[]"]
  by (simp add: falsy_def fresh_world_def)

section \<open>Blank searches\<close>

lemma trim_Nil_iff: "trim q = [] \<longleftrightarrow> (\<forall>c \<in> set q. is_white_space c)"
proof
  assume "trim q = []"
  then have "\<forall>c \<in> set (dropWhile is_white_space q). is_white_space c"
    by (simp add: trim_def dropWhile_eq_Nil_conv)
  then have "dropWhile is_white_space q = []"
    using hd_dropWhile [of is_white_space q] by (cases "dropWhile is_white_space q") auto
  then show "\<forall>c \<in> set q. is_white_space c" by (simp add: dropWhile_eq_Nil_conv)
next
  assume "\<forall>c \<in> set q. is_white_space c"
  then have d: "dropWhile is_white_space q = []" by (simp add: dropWhile_eq_Nil_conv)
  show "trim q = []" unfolding trim_def d by simp
qed

lemma displayedMovies_cong:
  "movies s' = movies s \<Longrightarrow> bookmarks s' = bookmarks s \<Longrightarrow>
   showBookmarksOnly s' = showBookmarksOnly s \<Longrightarrow> displayedMovies s' = displayedMovies s"
  by (simp add: displayedMovies_def)

lemma requests_fetchTrendingMovies:
  "requests (fetchTrendingMovies key r w) =
     requests w @ (if falsy key then [] else [TrendingRequest (the key)])"
  by (simp add: fetchTrendingMovies_def fetchTrendingMovies_request_frame
      fetchTrendingMovies_settled_frame setter_defs)

lemma fetchTrendingMovies_request_overwrites:
  "fetchTrendingMovies_request k (setSearchQuery v w) = fetchTrendingMovies_request k w"
  by (simp add: fetchTrendingMovies_request_def Let_def setter_defs)

text \<open>
  Claim C5. For a search text that is empty or made of white space only,
  \<open>searchMovies\<close> issues no search request: it issues exactly the requests of
  \<open>fetchTrendingMovies\<close> (the trending request when the access key is present, none
  otherwise), the displayed list is the one \<open>fetchTrendingMovies\<close> gives, and with
  the access key present the whole outcome of \<open>searchMovies\<close>, and of the
  \<open>onChange\<close> handler that calls it, is the outcome of \<open>fetchTrendingMovies\<close>.
\<close>

theorem blank_search_is_trending:
  assumes "\<forall>c \<in> set query. is_white_space c"
  shows "requests (searchMovies key query r w) = requests (fetchTrendingMovies key r w)
    \<and> requests (searchMovies key query r w)
        = requests w @ (if falsy key then [] else [TrendingRequest (the key)])
    \<and> displayedMovies (ui (searchMovies key query r w))
        = displayedMovies (ui (fetchTrendingMovies key r w))
    \<and> (\<not> falsy key \<longrightarrow> searchMovies key query r w = fetchTrendingMovies key r w
          \<and> onChange key query r w = fetchTrendingMovies key r w)"
proof (cases "falsy key")
  case True
  have "displayedMovies (ui (setError (Some api_key_missing) w))
      = displayedMovies (ui (setLoading False (setError (Some api_key_missing) w)))"
    by (rule displayedMovies_cong) (simp_all add: setter_defs)
  with True show ?thesis
    by (simp add: searchMovies_def fetchTrendingMovies_def) (simp add: setter_defs)
next
  case False
  from assms have blank: "trim query = []" by (simp add: trim_Nil_iff)
  with False have eq: "searchMovies key query r w = fetchTrendingMovies key r w" for w
    by (simp add: searchMovies_def)
  from False have "onChange key query r w = fetchTrendingMovies key r w"
    by (simp add: onChange_def eq fetchTrendingMovies_def fetchTrendingMovies_request_overwrites)
  with False eq show ?thesis by (simp add: requests_fetchTrendingMovies)
qed

theorem blank_search_is_trending_witness:
  "is_white_space 0x20 \<and> is_white_space 0x09 \<and> is_white_space 0x3000
   \<and> requests (searchMovies (Some [0x6B]) [0x20, 0x09, 0x3000] (Body (Some [example_movie 1]))
        fresh_world) = [TrendingRequest [0x6B]]
   \<and> displayedMovies (ui (searchMovies (Some [0x6B]) [0x20, 0x09, 0x3000]
        (Body (Some [example_movie 1])) fresh_world)) = [example_movie 1]
   \<and> searchMovies (Some [0x6B]) [0x20, 0x09, 0x3000] (Body (Some [example_movie 1])) fresh_world
        = fetchTrendingMovies (Some [0x6B]) (Body (Some [example_movie 1])) fresh_world"
proof -
  have blank: "\<forall>c \<in> set [0x20, 0x09, 0x3000 :: code_unit]. is_white_space c"
    by (simp add: is_white_space_def)
  have shown: "displayedMovies (ui (fetchTrendingMovies (Some [0x6B])
      (Body (Some [example_movie 1])) fresh_world)) = [example_movie 1]"
    by (simp add: fetchTrendingMovies_def fetchTrendingMovies_request_def
        fetchTrendingMovies_settled_def Let_def setter_defs falsy_def displayedMovies_def
        fresh_world_def initial_state_def)
  have none: "requests fresh_world = []" by (simp add: fresh_world_def)
  note t = blank_search_is_trending [OF blank, of "Some [0x6B]"
      "Body (Some [example_movie 1])" fresh_world]
  have 1: "requests (searchMovies (Some [0x6B]) [0x20, 0x09, 0x3000]
      (Body (Some [example_movie 1])) fresh_world) = [TrendingRequest [0x6B]]"
    using t [THEN conjunct2, THEN conjunct1] none by (simp add: falsy_def)
  have 2: "displayedMovies (ui (searchMovies (Some [0x6B]) [0x20, 0x09, 0x3000]
      (Body (Some [example_movie 1])) fresh_world)) = [example_movie 1]"
    using t [THEN conjunct2, THEN conjunct2, THEN conjunct1] shown by simp
  have 3: "searchMovies (Some [0x6B]) [0x20, 0x09, 0x3000] (Body (Some [example_movie 1]))
      fresh_world
    = fetchTrendingMovies (Some [0x6B]) (Body (Some [example_movie 1])) fresh_world"
    using t [THEN conjunct2, THEN conjunct2, THEN conjunct2] by (simp add: falsy_def)
  from blank 1 2 3 show ?thesis by simp
qed

section \<open>Loading the bookmarks when the page loads\<close>

text \<open>
  The load of the bookmarks is not unconditional. With the access key missing the effect
  returns before it reads the slot: the slot holds the bookmark 7 and the bookmarks in
  memory stay empty.
\<close>

theorem bookmarks_load_unconditional_counterexample:
  "page_load None Rejected (stored_world ''[7]'')
     = Inr (setLoading False (setError (Some api_key_missing) (stored_world ''[7]'')))
   \<and> bookmarks (ui (setLoading False (setError (Some api_key_missing) (stored_world ''[7]'')))) = []
   \<and> stored_bookmarks (stored_world ''[7]'') = Some [7]"
proof -
  have "JSON_parse ''[7]'' = Some [7]"
    using JSON_parse_stringify [of "[7]"] by (simp add: stringify_example)
  then show ?thesis
    by (simp add: page_load_no_key falsy_def stored_world_def fresh_world_def setter_defs
      initial_state_def stored_bookmarks_def)
qed

text \<open>
  Claim C6, amended. At a page load with the access key present, the bookmarks are
  what the slot holds: the empty array when the slot is absent (or empty), the array
  its text stands for otherwise; the slot itself is not changed. At a page load with
  the access key missing the slot is not read and the bookmarks stay empty.
\<close>

theorem bookmarks_loaded_at_startup:
  "(\<not> falsy key \<and> stored_bookmarks w = Some bs \<longrightarrow>
      (\<exists>w'. page_load key r w = Inr w' \<and> bookmarks (ui w') = bs
         \<and> localStorage w' = localStorage w))
   \<and> (localStorage w = None \<longrightarrow> stored_bookmarks w = Some [])
   \<and> (falsy key \<longrightarrow>
      (\<exists>w'. page_load key r w = Inr w' \<and> bookmarks (ui w') = []
         \<and> localStorage w' = localStorage w))"
proof (intro conjI impI)
  assume "\<not> falsy key \<and> stored_bookmarks w = Some bs"
  then show "\<exists>w'. page_load key r w = Inr w' \<and> bookmarks (ui w') = bs
         \<and> localStorage w' = localStorage w"
    by (simp add: page_load_key)
next
  assume "localStorage w = None"
  then show "stored_bookmarks w = Some []" by (simp add: stored_bookmarks_def falsy_def)
next
  assume "falsy key"
  then show "\<exists>w'. page_load key r w = Inr w' \<and> bookmarks (ui w') = []
         \<and> localStorage w' = localStorage w"
    by (simp add: page_load_no_key setter_defs initial_state_def)
qed

theorem bookmarks_loaded_at_startup_witness:
  "\<not> falsy (Some [0x6B :: code_unit])
   \<and> stored_bookmarks (stored_world ''[12,-305,0]'') = Some [12, -305, 0]
   \<and> (\<exists>w'. page_load (Some [0x6B]) Rejected (stored_world ''[12,-305,0]'') = Inr w'
         \<and> bookmarks (ui w') = [12, -305, 0])
   \<and> (\<exists>w'. page_load (Some [0x6B]) Rejected fresh_world = Inr w' \<and> bookmarks (ui w') = [])
   \<and> (\<exists>w'. page_load None Rejected (stored_world ''[12,-305,0]'') = Inr w'
         \<and> bookmarks (ui w') = [])"
proof -
  have parse: "JSON_parse ''[12,-305,0]'' = Some [12, -305, 0]"
    using JSON_parse_stringify [of "[12, -305, 0]"] by (simp add: stringify_example2)
  then have stored: "stored_bookmarks (stored_world ''[12,-305,0]'') = Some [12, -305, 0]"
    by (simp add: stored_bookmarks_def stored_world_def falsy_def)
  have fresh: "stored_bookmarks fresh_world = Some []"
    by (simp add: stored_bookmarks_def fresh_world_def falsy_def)
  from bookmarks_loaded_at_startup [of "Some [0x6B]" "stored_world ''[12,-305,0]''"
      "[12, -305, 0]" Rejected]
    bookmarks_loaded_at_startup [of "Some [0x6B]" fresh_world "[]" Rejected]
    bookmarks_loaded_at_startup [of None "stored_world ''[12,-305,0]''" "[]" Rejected]
    stored fresh
  show ?thesis by (auto simp: falsy_def)
qed

section \<open>Empty results\<close>

text \<open>
  A search that settles with an empty result array, or with no result array, sets a
  "no movies found" text and leaves the list empty; a search that fails sets a different
  text.
\<close>

lemma searchMovies_empty_results:
  assumes "\<not> falsy key" and "trim query \<noteq> []"
  shows "error (ui (searchMovies key query (Body (Some [])) w))
       = Some ''No movies found for your search''
    \<and> movies (ui (searchMovies key query (Body (Some [])) w)) = []
    \<and> error (ui (searchMovies key query (Body None) w)) = Some ''No movies found''
    \<and> movies (ui (searchMovies key query (Body None) w)) = []
    \<and> error (ui (searchMovies key query Rejected w))
       = Some ''Failed to search movies. Please try again later.''"
  using assms
  by (simp add: searchMovies_def searchMovies_request_def searchMovies_settled_def Let_def
      setter_defs)

text \<open>
  The trending fetch sets its "no movies found" text when the answer has no result
  array, for every access key that is present.
\<close>

lemma fetchTrendingMovies_no_results:
  assumes "\<not> falsy key"
  shows "error (ui (fetchTrendingMovies key (Body None) w)) = Some ''No movies found''
    \<and> movies (ui (fetchTrendingMovies key (Body None) w)) = []
    \<and> error (ui (fetchTrendingMovies key (Body (Some [])) w)) = None
    \<and> movies (ui (fetchTrendingMovies key (Body (Some [])) w)) = []"
  using assms
  by (simp add: fetchTrendingMovies_def fetchTrendingMovies_request_def
      fetchTrendingMovies_settled_def Let_def setter_defs)

text \<open>
  Claim C7. A fetch that succeeds with zero results is to set a "no results" text. The
  trending fetch misses the case of the empty result array: with the access key
  \<open>k\<close> and an answer whose result array is empty, \<open>fetchTrendingMovies\<close> leaves
  the error text unset and the panel shown is an empty grid, where \<open>searchMovies\<close>
  on the same answer sets its "no movies found" text.
\<close>

theorem trending_empty_results:
  "error (ui (fetchTrendingMovies (Some [0x6B]) (Body (Some [])) fresh_world)) = None
   \<and> movies (ui (fetchTrendingMovies (Some [0x6B]) (Body (Some [])) fresh_world)) = []
   \<and> render (ui (fetchTrendingMovies (Some [0x6B]) (Body (Some [])) fresh_world)) = MovieGrid []
   \<and> error (ui (searchMovies (Some [0x6B]) [0x61] (Body (Some [])) fresh_world))
       = Some ''No movies found for your search''"
  by (simp add: fetchTrendingMovies_def fetchTrendingMovies_request_def
        fetchTrendingMovies_settled_def searchMovies_def searchMovies_request_def
        searchMovies_settled_def trim_def is_white_space_def
        Let_def setter_defs falsy_def displayedMovies_def render_def filter_arr_def
        fresh_world_def initial_state_def)

end
